theory Spec2Isabelle
  imports Main "HOL-Library.Word" "HOL-Library.Sublist"
begin

section \<open>Admission webhooks of the fleet hub agent\<close>

text \<open>
  A shallow embedding of the validating webhook for v1beta1 ResourcePlacement
  (package \<open>resourceplacement\<close>), of the path constants of the ResourcePlacement and
  ClusterResourcePlacement webhooks, and of the parts of package \<open>webhook\<close> that the
  package's tests exercise.
\<close>

subsection \<open>Strings, bytes and formatting\<close>

type_synonym byte = "8 word"

text \<open>
  A Go \<open>error\<close> is represented by the text its \<open>Error()\<close> method returns; \<open>nil\<close> is
  \<open>None\<close> in an \<open>error option\<close>, and a fallible call returns \<open>error + 'a\<close> with
  \<open>Inl\<close> for the error.
\<close>

type_synonym error = string

text \<open>
  \<open>fmt.Sprintf\<close> restricted to the verb \<open>%s\<close>, the only one in the format strings of
  the source, with operands that are strings (an error operand prints its \<open>Error()\<close>
  text under \<open>%s\<close>). A verb without an operand prints \<open>%!s(MISSING)\<close> and operands
  left over are reported in a trailing \<open>%!(EXTRA ...)\<close>, as the Go library does.
\<close>

fun join_extra :: "string list \<Rightarrow> string" where
  "join_extra [] = []"
| "join_extra [a] = ''string='' @ a"
| "join_extra (a # b # bs) = ''string='' @ a @ '', '' @ join_extra (b # bs)"

fun Sprintf :: "string \<Rightarrow> string list \<Rightarrow> string" where
  "Sprintf [] [] = []"
| "Sprintf [] (a # as) = ''%!(EXTRA '' @ join_extra (a # as) @ '')''"
| "Sprintf [c] args = c # Sprintf [] args"
| "Sprintf (c # d # rest) args =
     (if c = CHR ''%'' \<and> d = CHR ''s'' then
        (case args of
           [] \<Rightarrow> ''%!s(MISSING)'' @ Sprintf rest []
         | a # as \<Rightarrow> a @ Sprintf rest as)
      else c # Sprintf (d # rest) args)"

text \<open>\<open>strings.Contains(s, substr)\<close>: \<open>substr\<close> occurs in \<open>s\<close> as a contiguous run.\<close>

definition strings_Contains :: "string \<Rightarrow> string \<Rightarrow> bool" where
  "strings_Contains s substr = sublist substr s"

subsection \<open>Admission requests and responses\<close>

text \<open>The four operations of \<open>admissionv1.Operation\<close>.\<close>

datatype Operation = Create | Update | Delete | Connect

record RawExtension =
  Raw :: "byte list"

record UserInfo =
  Username :: string
  Groups :: "string list"

record Request =
  Operation :: Operation
  ReqName :: string
  Object :: RawExtension
  OldObject :: RawExtension
  ReqUserInfo :: UserInfo

text \<open>
  The three response constructors the handler calls: \<open>admission.Allowed(message)\<close>,
  \<open>admission.Denied(message)\<close> and \<open>admission.Errored(code, err)\<close>.
\<close>

datatype Response =
    Allowed string
  | Denied string
  | Errored nat error

definition StatusBadRequest :: nat where
  "StatusBadRequest = 400"

subsection \<open>Placement objects\<close>

text \<open>
  The fields of a v1beta1 ResourcePlacement that the handler reads. The toleration type
  \<open>'t\<close> is left open: tolerations are only compared for equality. A nil pointer is
  \<open>None\<close>.
\<close>

type_synonym Time = int

record 't PlacementPolicy =
  PlacementType :: string
  PolicyTolerations :: "'t list"

record 't PlacementSpec =
  Policy :: "'t PlacementPolicy option"

record 't ResourcePlacement =
  Name :: string
  DeletionTimestamp :: "Time option"
  Spec :: "'t PlacementSpec"

text \<open>
  Modelled from the spec: the accessor \<open>PlacementSpec.Tolerations()\<close> is declared with
  the API types, outside the sources at hand. The spec gives a placement object a
  toleration set and treats an absent optional field as the empty value.
\<close>

definition Tolerations :: "'t PlacementSpec \<Rightarrow> 't list" where
  "Tolerations s = (case Policy s of None \<Rightarrow> [] | Some p \<Rightarrow> PolicyTolerations p)"

text \<open>
  Modelled from the spec: \<open>validator.IsPlacementPolicyTypeUpdated\<close> is outside the
  sources at hand. The spec's step reads: the placement type differs between old and
  new, an absent policy counting as the zero (empty) placement type.
\<close>

definition placementTypeOf :: "'t PlacementPolicy option \<Rightarrow> string" where
  "placementTypeOf p = (case p of None \<Rightarrow> [] | Some q \<Rightarrow> PlacementType q)"

definition IsPlacementPolicyTypeUpdated ::
  "'t PlacementPolicy option \<Rightarrow> 't PlacementPolicy option \<Rightarrow> bool" where
  "IsPlacementPolicyTypeUpdated oldPolicy currentPolicy =
     (placementTypeOf oldPolicy \<noteq> placementTypeOf currentPolicy)"

text \<open>
  Modelled from the spec: \<open>validator.IsTolerationsUpdatedOrDeleted\<close> is outside the
  sources at hand. The spec's step reads: every old toleration must be present,
  unchanged, in the new set, by order-independent structural membership; the function
  reports a violation of that.
\<close>

definition IsTolerationsUpdatedOrDeleted :: "'t list \<Rightarrow> 't list \<Rightarrow> bool" where
  "IsTolerationsUpdatedOrDeleted oldTolerations newTolerations =
     (\<not> list_all (\<lambda>oldToleration. oldToleration \<in> set newTolerations) oldTolerations)"

subsection \<open>The ResourcePlacement validating webhook\<close>

definition allowUpdateOldInvalidRPFmt :: string where
  "allowUpdateOldInvalidRPFmt =
     ''allow update on old invalid v1beta1 RP with DeletionTimestamp set''"

definition denyUpdateOldInvalidRPFmt :: string where
  "denyUpdateOldInvalidRPFmt =
     ''deny update on old invalid v1beta1 RP with DeletionTimestamp not set %s''"

definition denyCreateUpdateInvalidRPFmt :: string where
  "denyCreateUpdateInvalidRPFmt = ''deny create/update v1beta1 RP has invalid fields %s''"

text \<open>
  The decoder is the field of the validator struct; it belongs to the hosting server
  library and is a parameter here. \<open>Decode\<close> decodes the new object of a request and
  \<open>DecodeRaw\<close> a raw extension; each returns the decoded object or an error.
\<close>

record 't AdmissionDecoder =
  Decode :: "Request \<Rightarrow> error + 't ResourcePlacement"
  DecodeRaw :: "RawExtension \<Rightarrow> error + 't ResourcePlacement"

record 't resourcePlacementValidator =
  decoder :: "'t AdmissionDecoder"

text \<open>
  \<open>Handle\<close>, with the static validation \<open>validator.ValidateResourcePlacement\<close> (a
  collaborator outside the sources at hand) as the parameter
  \<open>ValidateResourcePlacement\<close>, which returns \<open>None\<close> for a valid object and the
  error otherwise. The log calls of the source produce no part of the response and are
  left out.
\<close>

definition Handle ::
  "'t resourcePlacementValidator \<Rightarrow> ('t ResourcePlacement \<Rightarrow> error option) \<Rightarrow>
   Request \<Rightarrow> Response" where
  "Handle v ValidateResourcePlacement req =
     (if Operation req = Create \<or> Operation req = Update then
        (case Decode (decoder v) req of
           Inl err \<Rightarrow> Errored StatusBadRequest err
         | Inr rp \<Rightarrow>
             (let validateNew =
                (case ValidateResourcePlacement rp of
                   Some err \<Rightarrow> Denied (Sprintf denyCreateUpdateInvalidRPFmt [err])
                 | None \<Rightarrow> Allowed ''any user is allowed to modify v1beta1 RP'')
              in
              if Operation req = Update then
                (case DecodeRaw (decoder v) (OldObject req) of
                   Inl err \<Rightarrow> Errored StatusBadRequest err
                 | Inr oldRP \<Rightarrow>
                     (case ValidateResourcePlacement oldRP of
                        Some err \<Rightarrow>
                          (if DeletionTimestamp rp \<noteq> None
                           then Allowed allowUpdateOldInvalidRPFmt
                           else Denied (Sprintf denyUpdateOldInvalidRPFmt [err]))
                      | None \<Rightarrow>
                          (if IsPlacementPolicyTypeUpdated (Policy (Spec oldRP)) (Policy (Spec rp))
                           then Denied ''placement type is immutable''
                           else if IsTolerationsUpdatedOrDeleted
                                     (Tolerations (Spec oldRP)) (Tolerations (Spec rp))
                           then Denied ''tolerations have been updated/deleted, only additions to tolerations are allowed''
                           else validateNew)))
              else validateNew))
      else Allowed ''any user is allowed to modify v1beta1 RP'')"

subsection \<open>The webhook paths\<close>

text \<open>
  The package-level variable \<open>ValidationPath\<close> of package \<open>resourceplacement\<close> and the
  one of package \<open>clusterresourceplacement\<close>. The format \<open>utils.ValidationPathFmt\<close> and
  the group and version of \<open>placementv1beta1.GroupVersion\<close> are constants declared
  outside the sources at hand and are parameters here.
\<close>

definition resourceplacement_ValidationPath :: "string \<Rightarrow> string \<Rightarrow> string \<Rightarrow> string" where
  "resourceplacement_ValidationPath ValidationPathFmt Group Version =
     Sprintf ValidationPathFmt [Group, Version, ''clusterresourceplacement'']"

definition clusterresourceplacement_ValidationPath :: "string \<Rightarrow> string \<Rightarrow> string \<Rightarrow> string" where
  "clusterresourceplacement_ValidationPath ValidationPathFmt Group Version =
     Sprintf ValidationPathFmt [Group, Version, ''clusterresourceplacement'']"

subsection \<open>Package webhook: configuration, descriptors and certificates\<close>

text \<open>
  The configuration value, with the fields that the package's tests set and compare.
\<close>

datatype WebhookClientConnectionType = Service | URL

record Config =
  serviceNamespace :: string
  serviceName :: string
  servicePort :: "32 word"
  serviceURL :: string
  clientConnectionType :: "WebhookClientConnectionType option"
  enableGuardRail :: bool
  denyModifyMemberClusterLabels :: bool
  enableWorkload :: bool
  useCertManager :: bool
  webhookCertSecretName :: string
  caPEM :: "byte list"

text \<open>
  Modelled from the spec: the descriptor type and \<open>buildFleetValidatingWebhooks\<close> (the
  spec's \<open>buildValidating\<close>) are outside the sources at hand (only the test of the
  builder is there). The spec gives a descriptor the fields below and says of the
  builder, a function of the configuration alone: it produces 8 descriptors by default;
  when \<open>enableWorkload\<close> is true, workload-specific validators supersede two of the
  generic ones, yielding 6. The spec does not name the eight generic validators, so
  they are numbered 1 to 8 here, and the two that the workload validators supersede
  are taken to be the last two. A descriptor shows the number of its validator in its
  path, the create and update operations that the spec says are decided, and the CA
  of the configuration as its bundle; the spec fixes no value for the other fields,
  which stay empty.
\<close>

record WebhookRuleDescriptor =
  path :: string
  apiGroup :: string
  apiVersion :: string
  resourceKinds :: "string list"
  operations :: "Operation list"
  failurePolicy :: string
  sideEffects :: string
  caBundle :: "byte list"

record ValidatingRule =
  ruleNumber :: string
  supersededByWorkload :: bool

definition genericValidatingRules :: "ValidatingRule list" where
  "genericValidatingRules =
     [\<lparr>ruleNumber = ''1'', supersededByWorkload = False\<rparr>,
      \<lparr>ruleNumber = ''2'', supersededByWorkload = False\<rparr>,
      \<lparr>ruleNumber = ''3'', supersededByWorkload = False\<rparr>,
      \<lparr>ruleNumber = ''4'', supersededByWorkload = False\<rparr>,
      \<lparr>ruleNumber = ''5'', supersededByWorkload = False\<rparr>,
      \<lparr>ruleNumber = ''6'', supersededByWorkload = False\<rparr>,
      \<lparr>ruleNumber = ''7'', supersededByWorkload = True\<rparr>,
      \<lparr>ruleNumber = ''8'', supersededByWorkload = True\<rparr>]"

definition describeRule :: "Config \<Rightarrow> ValidatingRule \<Rightarrow> WebhookRuleDescriptor" where
  "describeRule w r =
     \<lparr>path = ''/validate-'' @ ruleNumber r, apiGroup = [], apiVersion = [],
      resourceKinds = [], operations = [Create, Update],
      failurePolicy = [], sideEffects = [], caBundle = caPEM w\<rparr>"

definition buildFleetValidatingWebhooks :: "Config \<Rightarrow> WebhookRuleDescriptor list" where
  "buildFleetValidatingWebhooks w =
     map (describeRule w)
       (filter (\<lambda>r. \<not> (enableWorkload w \<and> supersededByWorkload r)) genericValidatingRules)"

text \<open>
  The file system as the certificate code sees it: a path has contents or does not
  exist. \<open>filepath.Join\<close> is applied to a directory and a plain file name only.
\<close>

type_synonym filesystem = "string \<rightharpoonup> byte list"

definition filepath_Join :: "string \<Rightarrow> string \<Rightarrow> string" where
  "filepath_Join dir name = dir @ ''/'' @ name"

text \<open>
  Modelled from the spec: \<open>loadCertManagerCA\<close> (the spec's \<open>loadExternalCA\<close>) is
  outside the sources at hand (only its tests are there). The spec: it reads the CA
  file \<open>ca.crt\<close> from the directory; it fails with \<open>CAMissing\<close> if the file is absent
  and with \<open>CAEmpty\<close> if it is zero-length, the error text distinguishing the two; the
  test expects the text of the second to contain \<open>empty\<close>. The receiver is not read.
\<close>

definition loadCertManagerCA :: "filesystem \<Rightarrow> string \<Rightarrow> error + byte list" where
  "loadCertManagerCA fs certDir =
     (let caPath = filepath_Join certDir ''ca.crt'' in
      case fs caPath of
        None \<Rightarrow> Inl (Sprintf ''CA certificate not found at %s'' [caPath])
      | Some caData \<Rightarrow>
          if length caData = 0
          then Inl (Sprintf ''CA certificate file is empty: %s'' [caPath])
          else Inr caData)"

text \<open>
  Modelled from the spec: \<open>NewWebhookConfig\<close> is outside the sources at hand (only its
  tests are there). The spec: exactly one of the two certificate paths executes,
  selected by a boolean flag, and a failure in the selected path is fatal. The tests
  give the argument order and the text that each failure must carry. The self-signed
  generation (the spec's \<open>provisionSelfSigned\<close>, which creates keys and writes files) is
  the parameter \<open>provisionSelfSigned\<close>, returning the certificate, the key and the CA,
  or an error; the namespace comes from the environment variable \<open>POD_NAMESPACE\<close>.
\<close>

type_synonym certMaterial = "byte list \<times> byte list \<times> byte list"

definition NewWebhookConfig ::
  "(string \<Rightarrow> string \<Rightarrow> string \<Rightarrow> string \<Rightarrow> error + certMaterial) \<Rightarrow> filesystem \<Rightarrow>
   string \<Rightarrow> string \<Rightarrow> 32 word \<Rightarrow> WebhookClientConnectionType option \<Rightarrow> string \<Rightarrow>
   bool \<Rightarrow> bool \<Rightarrow> bool \<Rightarrow> bool \<Rightarrow> string \<Rightarrow> error + Config" where
  "NewWebhookConfig provisionSelfSigned fs namespace webhookServiceName port
     connectionType certDirectory guardRail denyLabels workload certManager secretName =
     (let w = \<lparr>serviceNamespace = namespace, serviceName = webhookServiceName,
                servicePort = port, serviceURL = [], clientConnectionType = connectionType,
                enableGuardRail = guardRail, denyModifyMemberClusterLabels = denyLabels,
                enableWorkload = workload, useCertManager = certManager,
                webhookCertSecretName = secretName, caPEM = []\<rparr>
      in
      if certManager then
        (case loadCertManagerCA fs certDirectory of
           Inl err \<Rightarrow> Inl (Sprintf ''failed to load cert-manager CA certificate: %s'' [err])
         | Inr ca \<Rightarrow> Inr (w\<lparr>caPEM := ca\<rparr>))
      else
        (case provisionSelfSigned webhookServiceName namespace secretName certDirectory of
           Inl err \<Rightarrow> Inl (Sprintf ''failed to generate self-signed certificate: %s'' [err])
         | Inr (certPEM, keyPEM, ca) \<Rightarrow> Inr (w\<lparr>caPEM := ca\<rparr>)))"

subsection \<open>Sample objects and requests\<close>

text \<open>
  Concrete placements, a decoder that reads them from one-byte payloads, and a static
  validation that rejects an empty name; they instantiate the theorems below.
\<close>

definition samplePlacement :: "string \<Rightarrow> Time option \<Rightarrow> string \<Rightarrow> string list \<Rightarrow> string ResourcePlacement" where
  "samplePlacement name deleted ptype tols =
     \<lparr>Name = name, DeletionTimestamp = deleted,
      Spec = \<lparr>Policy = Some \<lparr>PlacementType = ptype, PolicyTolerations = tols\<rparr>\<rparr>\<rparr>"

definition sampleDecode :: "byte list \<Rightarrow> error + string ResourcePlacement" where
  "sampleDecode raw =
     (if raw = [1] then Inr (samplePlacement ''rp'' None ''PickAll'' [''t1''])
      else if raw = [2] then Inr (samplePlacement [] None ''PickAll'' [''t1''])
      else if raw = [3] then Inr (samplePlacement [] (Some 1700000000) ''PickN'' [])
      else if raw = [4] then Inr (samplePlacement ''rp'' None ''PickN'' [''t1''])
      else if raw = [5] then Inr (samplePlacement ''rp'' None ''PickAll'' [''t2'', ''t1''])
      else if raw = [6] then Inr (samplePlacement ''rp'' None ''PickAll'' [''t2''])
      else Inl ''cannot decode'')"

definition sampleValidator :: "string resourcePlacementValidator" where
  "sampleValidator =
     \<lparr>decoder = \<lparr>Decode = (\<lambda>req. sampleDecode (Raw (Object req))),
                  DecodeRaw = (\<lambda>raw. sampleDecode (Raw raw))\<rparr>\<rparr>"

definition sampleValidate :: "string ResourcePlacement \<Rightarrow> error option" where
  "sampleValidate rp = (if Name rp = [] then Some ''name is empty'' else None)"

definition sampleRequest :: "Operation \<Rightarrow> byte list \<Rightarrow> byte list \<Rightarrow> Request" where
  "sampleRequest op new old =
     \<lparr>Operation = op, ReqName = ''rp'', Object = \<lparr>Raw = new\<rparr>, OldObject = \<lparr>Raw = old\<rparr>,
      ReqUserInfo = \<lparr>Username = ''user'', Groups = [''system:masters'']\<rparr>\<rparr>"

definition sampleCA :: "byte list" where
  "sampleCA = [116, 101, 115, 116, 45, 99, 97]"

definition sampleConfig :: "bool \<Rightarrow> Config" where
  "sampleConfig workload =
     \<lparr>serviceNamespace = ''test-namespace'', serviceName = [], servicePort = 8080,
      serviceURL = ''test-url'', clientConnectionType = Some URL, enableGuardRail = False,
      denyModifyMemberClusterLabels = False, enableWorkload = workload,
      useCertManager = False, webhookCertSecretName = [], caPEM = []\<rparr>"

section \<open>Properties\<close>

subsection \<open>Helper facts\<close>

lemma Sprintf_denyUpdateOldInvalidRPFmt:
  "Sprintf denyUpdateOldInvalidRPFmt [err] =
     ''deny update on old invalid v1beta1 RP with DeletionTimestamp not set '' @ err"
  by (simp add: denyUpdateOldInvalidRPFmt_def)

lemma Sprintf_denyCreateUpdateInvalidRPFmt:
  "Sprintf denyCreateUpdateInvalidRPFmt [err] =
     ''deny create/update v1beta1 RP has invalid fields '' @ err"
  by (simp add: denyCreateUpdateInvalidRPFmt_def)

lemma IsTolerationsUpdatedOrDeleted_iff:
  "IsTolerationsUpdatedOrDeleted old new \<longleftrightarrow> \<not> set old \<subseteq> set new"
  by (auto simp: IsTolerationsUpdatedOrDeleted_def list_all_iff)

lemma strings_Contains_prefix: "strings_Contains (p @ s) p"
  unfolding strings_Contains_def using sublist_appendI [of p "[]" s] by simp

lemmas sample_defs =
  sampleRequest_def sampleValidator_def sampleDecode_def sampleValidate_def
  samplePlacement_def

subsection \<open>Operations other than create and update\<close>

text \<open>
  C10. For a request whose operation is neither Create nor Update, the handler answers
  Allowed whatever the decoder and the static validation would do: neither is
  consulted, so even a payload that does not decode and a validation that rejects
  every object leave the answer unchanged.
\<close>

theorem Handle_other_operation_allowed:
  assumes "Operation req \<noteq> Create" and "Operation req \<noteq> Update"
  shows "Handle v validate req = Allowed ''any user is allowed to modify v1beta1 RP''"
  using assms by (simp add: Handle_def)

theorem Handle_other_operation_allowed_witness:
  "sampleDecode [] = Inl ''cannot decode'' \<and>
   Handle sampleValidator (\<lambda>_. Some ''invalid'') (sampleRequest Delete [] []) =
     Allowed ''any user is allowed to modify v1beta1 RP''"
  using Handle_other_operation_allowed
          [where req = "sampleRequest Delete [] []" and v = sampleValidator
             and validate = "\<lambda>_. Some ''invalid''"]
  by (simp add: sample_defs)

subsection \<open>Updates of an object that is already invalid\<close>

text \<open>
  C1. On an Update whose old object fails static validation, the decision is Allowed
  when the new object has a deletion timestamp, whatever else the new object holds
  (its own static validation is not asked), and Denied when it has none.
\<close>

theorem Handle_update_old_invalid:
  assumes "Operation req = Update"
    and "Decode (decoder v) req = Inr rp"
    and "DecodeRaw (decoder v) (OldObject req) = Inr oldRP"
    and "validate oldRP = Some err"
  shows "Handle v validate req =
           (if DeletionTimestamp rp \<noteq> None then Allowed allowUpdateOldInvalidRPFmt
            else Denied (Sprintf denyUpdateOldInvalidRPFmt [err]))"
  using assms by (simp add: Handle_def)

theorem Handle_update_old_invalid_witness:
  "sampleValidate (samplePlacement [] (Some 1700000000) ''PickN'' []) = Some ''name is empty'' \<and>
   Handle sampleValidator sampleValidate (sampleRequest Update [3] [2]) =
     Allowed ''allow update on old invalid v1beta1 RP with DeletionTimestamp set'' \<and>
   Handle sampleValidator sampleValidate (sampleRequest Update [1] [2]) =
     Denied ''deny update on old invalid v1beta1 RP with DeletionTimestamp not set name is empty''"
  using Handle_update_old_invalid
          [where req = "sampleRequest Update [3] [2]" and v = sampleValidator
             and validate = sampleValidate and err = "''name is empty''"
             and rp = "samplePlacement [] (Some 1700000000) ''PickN'' []"
             and oldRP = "samplePlacement [] None ''PickAll'' [''t1'']"]
        Handle_update_old_invalid
          [where req = "sampleRequest Update [1] [2]" and v = sampleValidator
             and validate = sampleValidate and err = "''name is empty''"
             and rp = "samplePlacement ''rp'' None ''PickAll'' [''t1'']"
             and oldRP = "samplePlacement [] None ''PickAll'' [''t1'']"]
  by (simp add: sample_defs allowUpdateOldInvalidRPFmt_def Sprintf_denyUpdateOldInvalidRPFmt)

subsection \<open>Payloads that do not decode\<close>

text \<open>
  C8. On a Create or Update, when the new object does not decode, or on an Update the
  new object decodes and the old one does not, the handler answers with the error
  response of status 400 carrying the decoder's error, which is not a Denied response.
\<close>

theorem Handle_decode_failure_errored:
  assumes "Operation req = Create \<or> Operation req = Update"
    and "Decode (decoder v) req = Inl err \<or>
         (Operation req = Update \<and> Decode (decoder v) req = Inr rp \<and>
          DecodeRaw (decoder v) (OldObject req) = Inl err)"
  shows "Handle v validate req = Errored 400 err \<and>
         (\<forall>reason. Handle v validate req \<noteq> Denied reason)"
proof -
  have "Handle v validate req = Errored StatusBadRequest err"
    using assms by (auto simp: Handle_def)
  then show ?thesis by (simp add: StatusBadRequest_def)
qed

theorem Handle_decode_failure_errored_witness:
  "Handle sampleValidator sampleValidate (sampleRequest Create [9] []) =
     Errored 400 ''cannot decode'' \<and>
   Handle sampleValidator sampleValidate (sampleRequest Update [1] [9]) =
     Errored 400 ''cannot decode''"
  using Handle_decode_failure_errored
          [where req = "sampleRequest Create [9] []" and v = sampleValidator
             and validate = sampleValidate and err = "''cannot decode''"]
        Handle_decode_failure_errored
          [where req = "sampleRequest Update [1] [9]" and v = sampleValidator
             and validate = sampleValidate and err = "''cannot decode''"
             and rp = "samplePlacement ''rp'' None ''PickAll'' [''t1'']"]
  by (simp add: sample_defs)

subsection \<open>Immutable placement type\<close>

text \<open>
  C2. On an Update whose old object passes static validation, when the placement type
  of the old object differs from the placement type of the new one, the decision is
  Denied with the reason \<open>placement type is immutable\<close>.
\<close>

theorem Handle_update_placement_type_immutable:
  assumes "Operation req = Update"
    and "Decode (decoder v) req = Inr rp"
    and "DecodeRaw (decoder v) (OldObject req) = Inr oldRP"
    and "validate oldRP = None"
    and "placementTypeOf (Policy (Spec oldRP)) \<noteq> placementTypeOf (Policy (Spec rp))"
  shows "Handle v validate req = Denied ''placement type is immutable''"
  using assms by (simp add: Handle_def IsPlacementPolicyTypeUpdated_def)

theorem Handle_update_placement_type_immutable_witness:
  "placementTypeOf (Policy (Spec (samplePlacement ''rp'' None ''PickAll'' [''t1''] ))) = ''PickAll'' \<and>
   placementTypeOf (Policy (Spec (samplePlacement ''rp'' None ''PickN'' [''t1'']))) = ''PickN'' \<and>
   Handle sampleValidator sampleValidate (sampleRequest Update [4] [1]) =
     Denied ''placement type is immutable''"
  using Handle_update_placement_type_immutable
          [where req = "sampleRequest Update [4] [1]" and v = sampleValidator
             and validate = sampleValidate
             and rp = "samplePlacement ''rp'' None ''PickN'' [''t1'']"
             and oldRP = "samplePlacement ''rp'' None ''PickAll'' [''t1'']"]
  by (simp add: sample_defs placementTypeOf_def)

subsection \<open>Tolerations may only be added\<close>

text \<open>
  C3. On an Update whose old object passes static validation and whose placement type
  is unchanged: when some toleration of the old object is not among the tolerations of
  the new one, the decision is Denied; when every toleration of the old object is among
  those of the new one, in any order, the toleration check lets the request through to
  the static validation of the new object, whose outcome is the decision.
\<close>

theorem Handle_update_tolerations:
  assumes "Operation req = Update"
    and "Decode (decoder v) req = Inr rp"
    and "DecodeRaw (decoder v) (OldObject req) = Inr oldRP"
    and "validate oldRP = None"
    and "placementTypeOf (Policy (Spec oldRP)) = placementTypeOf (Policy (Spec rp))"
  shows "Handle v validate req =
           (if set (Tolerations (Spec oldRP)) \<subseteq> set (Tolerations (Spec rp)) then
              (case validate rp of
                 Some e \<Rightarrow> Denied (Sprintf denyCreateUpdateInvalidRPFmt [e])
               | None \<Rightarrow> Allowed ''any user is allowed to modify v1beta1 RP'')
            else Denied ''tolerations have been updated/deleted, only additions to tolerations are allowed'')"
  using assms
  by (simp add: Handle_def IsPlacementPolicyTypeUpdated_def IsTolerationsUpdatedOrDeleted_iff)

theorem Handle_update_tolerations_witness:
  "Handle sampleValidator sampleValidate (sampleRequest Update [6] [1]) =
     Denied ''tolerations have been updated/deleted, only additions to tolerations are allowed'' \<and>
   Handle sampleValidator sampleValidate (sampleRequest Update [5] [1]) =
     Allowed ''any user is allowed to modify v1beta1 RP''"
  using Handle_update_tolerations
          [where req = "sampleRequest Update [6] [1]" and v = sampleValidator
             and validate = sampleValidate
             and rp = "samplePlacement ''rp'' None ''PickAll'' [''t2'']"
             and oldRP = "samplePlacement ''rp'' None ''PickAll'' [''t1'']"]
        Handle_update_tolerations
          [where req = "sampleRequest Update [5] [1]" and v = sampleValidator
             and validate = sampleValidate
             and rp = "samplePlacement ''rp'' None ''PickAll'' [''t2'', ''t1'']"
             and oldRP = "samplePlacement ''rp'' None ''PickAll'' [''t1'']"]
  by (simp add: sample_defs placementTypeOf_def Tolerations_def)

subsection \<open>The two webhook paths\<close>

text \<open>
  C4. The path of the ResourcePlacement webhook and the path of the
  ClusterResourcePlacement webhook should differ. As the source computes them, both are
  formatted with the kind \<open>clusterresourceplacement\<close>, so they are the same path for
  every format, group and version; with a three-place format such as
  \<open>/validate-%s-%s-%s\<close> the ResourcePlacement path ends in
  \<open>clusterresourceplacement\<close>.
\<close>

theorem ValidationPath_shared:
  "resourceplacement_ValidationPath fmt grp ver =
     clusterresourceplacement_ValidationPath fmt grp ver \<and>
   resourceplacement_ValidationPath ''/validate-%s-%s-%s'' ''placement.kubernetes-fleet.io''
       ''v1beta1'' =
     ''/validate-placement.kubernetes-fleet.io-v1beta1-clusterresourceplacement''"
  by (simp add: resourceplacement_ValidationPath_def clusterresourceplacement_ValidationPath_def)

subsection \<open>Number of validating descriptors\<close>

text \<open>
  C5. For every configuration with \<open>enableWorkload\<close> false the builder of the
  validating webhooks returns exactly 8 descriptors, and for every configuration with
  \<open>enableWorkload\<close> true it returns exactly 6, whatever the other fields hold.
\<close>

theorem buildFleetValidatingWebhooks_length:
  "(\<not> enableWorkload w \<longrightarrow> length (buildFleetValidatingWebhooks w) = 8) \<and>
   (enableWorkload w \<longrightarrow> length (buildFleetValidatingWebhooks w) = 6)"
  by (simp add: buildFleetValidatingWebhooks_def genericValidatingRules_def)

theorem buildFleetValidatingWebhooks_length_witness:
  "\<not> enableWorkload (sampleConfig False) \<and> enableWorkload (sampleConfig True) \<and>
   length (buildFleetValidatingWebhooks (sampleConfig False)) = 8 \<and>
   length (buildFleetValidatingWebhooks (sampleConfig True)) = 6"
  using buildFleetValidatingWebhooks_length [of "sampleConfig False"]
        buildFleetValidatingWebhooks_length [of "sampleConfig True"]
  by (simp add: sampleConfig_def)

subsection \<open>Loading the external CA\<close>

text \<open>
  C6. On a zero-length \<open>ca.crt\<close> the loader returns an error whose text contains
  \<open>empty\<close>; on a missing file it returns an error different from that one; on a file
  with contents it returns exactly those bytes.
\<close>

theorem loadCertManagerCA_cases:
  assumes "fsEmpty (filepath_Join certDir ''ca.crt'') = Some []"
    and "fsMissing (filepath_Join certDir ''ca.crt'') = None"
    and "fsPopulated (filepath_Join certDir ''ca.crt'') = Some caData" and "caData \<noteq> []"
  shows "(\<exists>msg. loadCertManagerCA fsEmpty certDir = Inl msg \<and> strings_Contains msg ''empty'')
       \<and> (\<exists>msg. loadCertManagerCA fsMissing certDir = Inl msg
                 \<and> loadCertManagerCA fsEmpty certDir \<noteq> Inl msg)
       \<and> loadCertManagerCA fsPopulated certDir = Inr caData"
proof -
  let ?p = "filepath_Join certDir ''ca.crt''"
  have e: "loadCertManagerCA fsEmpty certDir = Inl (''CA certificate file is empty: '' @ ?p)"
    using assms(1) by (simp add: loadCertManagerCA_def)
  have "sublist ''empty'' (''CA certificate file is '' @ ''empty'' @ ('': '' @ ?p))"
    by (rule sublist_appendI)
  then have c: "strings_Contains (''CA certificate file is empty: '' @ ?p) ''empty''"
    by (simp add: strings_Contains_def)
  have m: "loadCertManagerCA fsMissing certDir = Inl (''CA certificate not found at '' @ ?p)"
    using assms(2) by (simp add: loadCertManagerCA_def)
  have f: "loadCertManagerCA fsPopulated certDir = Inr caData"
    using assms(3,4) by (simp add: loadCertManagerCA_def)
  show ?thesis unfolding e m f using c by simp
qed

theorem loadCertManagerCA_cases_witness:
  "loadCertManagerCA [''/certs/ca.crt'' \<mapsto> []] ''/certs'' =
     Inl ''CA certificate file is empty: /certs/ca.crt''
   \<and> loadCertManagerCA Map.empty ''/certs'' = Inl ''CA certificate not found at /certs/ca.crt''
   \<and> loadCertManagerCA [''/certs/ca.crt'' \<mapsto> sampleCA] ''/certs'' = Inr sampleCA"
  using loadCertManagerCA_cases [of "[''/certs/ca.crt'' \<mapsto> []]" "''/certs''" Map.empty
          "[''/certs/ca.crt'' \<mapsto> sampleCA]" sampleCA]
  by (simp add: filepath_Join_def loadCertManagerCA_def sampleCA_def)

subsection \<open>One certificate strategy, no fallback\<close>

text \<open>
  C7. With \<open>useCertManager\<close> true, a failure to load the external CA makes
  \<open>NewWebhookConfig\<close> return an error that mentions the failed load, whatever the
  self-signed generation would return; with it false, a failure of the self-signed
  generation makes it return an error that mentions the failed generation, whatever
  the certificate directory holds. With the flag true the result does not depend on
  the self-signed generation at all, and with the flag false it does not depend on
  the file system at all.
\<close>

theorem NewWebhookConfig_selected_strategy_only:
  assumes "loadCertManagerCA fsBad dir = Inl loadErr"
    and "provisionBad name ns secret dir = Inl genErr"
  shows "(\<exists>msg. NewWebhookConfig provision fsBad ns name port ct dir gr dl wl True secret = Inl msg
              \<and> strings_Contains msg ''failed to load cert-manager CA certificate'')
       \<and> (\<exists>msg. NewWebhookConfig provisionBad fs ns name port ct dir gr dl wl False secret = Inl msg
              \<and> strings_Contains msg ''failed to generate self-signed certificate'')
       \<and> NewWebhookConfig provision fs ns name port ct dir gr dl wl True secret =
           NewWebhookConfig provision' fs ns name port ct dir gr dl wl True secret
       \<and> NewWebhookConfig provision fs ns name port ct dir gr dl wl False secret =
           NewWebhookConfig provision fs' ns name port ct dir gr dl wl False secret"
proof -
  have a: "NewWebhookConfig provision fsBad ns name port ct dir gr dl wl True secret =
             Inl (''failed to load cert-manager CA certificate'' @ '': '' @ loadErr)"
    using assms(1) by (simp add: NewWebhookConfig_def)
  have b: "NewWebhookConfig provisionBad fs ns name port ct dir gr dl wl False secret =
             Inl (''failed to generate self-signed certificate'' @ '': '' @ genErr)"
    using assms(2) by (simp add: NewWebhookConfig_def)
  have c: "NewWebhookConfig provision fs ns name port ct dir gr dl wl True secret =
           NewWebhookConfig provision' fs ns name port ct dir gr dl wl True secret"
    by (simp add: NewWebhookConfig_def)
  have d: "NewWebhookConfig provision fs ns name port ct dir gr dl wl False secret =
           NewWebhookConfig provision fs' ns name port ct dir gr dl wl False secret"
    by (simp add: NewWebhookConfig_def)
  have a': "\<exists>msg. NewWebhookConfig provision fsBad ns name port ct dir gr dl wl True secret = Inl msg
              \<and> strings_Contains msg ''failed to load cert-manager CA certificate''"
    unfolding a using strings_Contains_prefix by blast
  have b': "\<exists>msg. NewWebhookConfig provisionBad fs ns name port ct dir gr dl wl False secret = Inl msg
              \<and> strings_Contains msg ''failed to generate self-signed certificate''"
    unfolding b using strings_Contains_prefix by blast
  from a' b' c d show ?thesis by blast
qed

theorem NewWebhookConfig_selected_strategy_only_witness:
  "loadCertManagerCA Map.empty ''/certs'' = Inl ''CA certificate not found at /certs/ca.crt'' \<and>
   (\<exists>msg. NewWebhookConfig (\<lambda>_ _ _ _. Inr ([], [], sampleCA)) Map.empty ''test-namespace''
             ''test-webhook'' 8080 None ''/certs'' True True False True
             ''fleet-webhook-server-cert'' = Inl msg
        \<and> strings_Contains msg ''failed to load cert-manager CA certificate'') \<and>
   (\<exists>msg. NewWebhookConfig (\<lambda>_ _ _ _. Inl ''read-only file system'')
             [''/certs/ca.crt'' \<mapsto> sampleCA] ''test-namespace''
             ''test-webhook'' 8080 None ''/certs'' True True False False
             ''fleet-webhook-server-cert'' = Inl msg
        \<and> strings_Contains msg ''failed to generate self-signed certificate'')"
proof -
  have h: "loadCertManagerCA Map.empty ''/certs'' =
             Inl ''CA certificate not found at /certs/ca.crt''"
    by (simp add: loadCertManagerCA_def filepath_Join_def)
  from h NewWebhookConfig_selected_strategy_only
          [where fsBad = Map.empty and dir = "''/certs''"
             and loadErr = "''CA certificate not found at /certs/ca.crt''"
             and provisionBad = "\<lambda>_ _ _ _. Inl ''read-only file system''"
             and genErr = "''read-only file system''"
             and provision = "\<lambda>_ _ _ _. Inr ([], [], sampleCA)"
             and fs = "[''/certs/ca.crt'' \<mapsto> sampleCA]"
             and name = "''test-webhook''" and ns = "''test-namespace''"
             and secret = "''fleet-webhook-server-cert''" and port = 8080 and ct = None
             and gr = True and dl = True and wl = False]
  show ?thesis by blast
qed

end
